theory Spec2Isabelle
  imports
    Main
    "HOL-Library.Sublist"
    "HOL-Library.Char_ord"
    "HOL-Library.List_Lexorder"
    "HOL-Library.Multiset"
    "HOL-Library.Word"
begin

section \<open>The analysis page script \<open>static/js/analyze.js\<close>\<close>

text \<open>
  The script has three parts: \<open>getKeys\<close> flattens the catalog served at \<open>/list\<close>,
  \<open>analyze\<close> turns the input rows into retrieval paths and waits for two batches of
  snapshots, and \<open>doAnalyses\<close> classifies the identifiers of the refined graph and
  writes three text regions. Strings are lists of characters, compared by character
  code as JavaScript compares strings by code unit.
\<close>

subsection \<open>String and array primitives of the language\<close>

text \<open>\<open>Array.prototype.join\<close> with separator \<open>sep\<close>.\<close>

fun join :: "string \<Rightarrow> string list \<Rightarrow> string" where
  "join sep [] = []"
| "join sep [x] = x"
| "join sep (x # y # ys) = x @ sep @ join sep (y # ys)"

text \<open>
  \<open>String.prototype.split\<close> with a separator of one character: the result always has
  one more element than the string has separators.
\<close>

fun split :: "char \<Rightarrow> string \<Rightarrow> string list" where
  "split c [] = [[]]"
| "split c (x # xs) =
     (if x = c then [] # split c xs
      else (case split c xs of
              [] \<Rightarrow> [[x]]
            | w # ws \<Rightarrow> (x # w) # ws))"

text \<open>
  \<open>s.indexOf(t)\<close>: the position of the first occurrence of \<open>t\<close> in \<open>s\<close>, or \<open>-1\<close>.
\<close>

fun indexOf_from :: "string \<Rightarrow> string \<Rightarrow> int \<Rightarrow> int" where
  "indexOf_from [] t i = (if t = [] then i else - 1)"
| "indexOf_from (x # xs) t i = (if prefix t (x # xs) then i else indexOf_from xs t (i + 1))"

definition indexOf :: "string \<Rightarrow> string \<Rightarrow> int" where
  "indexOf s t = indexOf_from s t 0"

definition newline :: string where
  "newline = [CHR 0x0A]"

subsection \<open>The catalog and \<open>getKeys\<close>\<close>

text \<open>
  A value decoded from the JSON of \<open>/list\<close>, as \<open>getKeys\<close> sees it: a primitive, or an
  object given by its own properties in the order \<open>Object.getOwnPropertyNames\<close>
  enumerates them, each name with the value \<open>o[key]\<close> stored under it. An array is
  such an object: its property names are its indices and \<open>length\<close>.
\<close>

datatype json = JNull | JBool bool | JNum int | JStr string | JObj "(string \<times> json) list"

fun typeof :: "json \<Rightarrow> string" where
  "typeof JNull = ''object''"
| "typeof (JBool b) = ''boolean''"
| "typeof (JNum n) = ''number''"
| "typeof (JStr t) = ''string''"
| "typeof (JObj ps) = ''object''"

fun getOwnPropertyNames :: "json \<Rightarrow> string list" where
  "getOwnPropertyNames (JObj ps) = map fst ps"
| "getOwnPropertyNames v = []"

text \<open>
  \<open>getKeys(o, s)\<close>. The first five equations are the test
  \<open>typeof o !== 'object' || o === null\<close>; \<open>getKeys_loop\<close> is the \<open>for\<close> loop over the
  property names with its accumulator \<open>rtn\<close>. The empty string is falsy, so
  \<open>s ? s + ' ' + key : key\<close> tests \<open>s \<noteq> []\<close>.
\<close>

fun getKeys :: "json \<Rightarrow> string \<Rightarrow> string list"
  and getKeys_loop :: "(string \<times> json) list \<Rightarrow> string \<Rightarrow> string list \<Rightarrow> string list" where
  "getKeys (JObj ps) s = getKeys_loop ps s []"
| "getKeys JNull s = [s]"
| "getKeys (JBool b) s = [s]"
| "getKeys (JNum n) s = [s]"
| "getKeys (JStr t) s = [s]"
| "getKeys_loop [] s rtn = rtn"
| "getKeys_loop ((key, v) # rest) s rtn =
     getKeys_loop rest s (rtn @ getKeys v (if s \<noteq> [] then s @ '' '' @ key else key))"

text \<open>
  The callback of \<open>loadData('/list')\<close> stores \<open>getKeys(map, '')\<close> in
  \<open>includeExcludeOpts\<close>; \<open>addOpts\<close> appends one option per entry to the datalist.
\<close>

definition catalogLoaded :: "json \<Rightarrow> string list" where
  "catalogLoaded m = getKeys m []"

definition addOpts :: "string list \<Rightarrow> string list \<Rightarrow> string list" where
  "addOpts includeExcludeOpts datalist = datalist @ includeExcludeOpts"

text \<open>
  The specification's reading of the flattening, for comparison with \<open>getKeys\<close>: the
  paths from the root to every leaf value (a value that is not an object, or null),
  depth first with the properties in enumeration order, each path a list of
  segments; an option is a path with its segments joined by single spaces.
\<close>

fun spec_leafPaths :: "json \<Rightarrow> string list list"
  and spec_leafPaths_props :: "(string \<times> json) list \<Rightarrow> string list list" where
  "spec_leafPaths (JObj ps) = spec_leafPaths_props ps"
| "spec_leafPaths JNull = [[]]"
| "spec_leafPaths (JBool b) = [[]]"
| "spec_leafPaths (JNum n) = [[]]"
| "spec_leafPaths (JStr t) = [[]]"
| "spec_leafPaths_props [] = []"
| "spec_leafPaths_props ((key, v) # rest) =
     map ((#) key) (spec_leafPaths v) @ spec_leafPaths_props rest"

definition spec_options :: "json \<Rightarrow> string list" where
  "spec_options m = map (join '' '') (spec_leafPaths m)"

subsection \<open>Retrieval paths\<close>

text \<open>\<open>label.replace(/ /g, '/')\<close> under the routing prefix \<open>/data/\<close>.\<close>

definition optValueToURL :: "string \<Rightarrow> string" where
  "optValueToURL label = ''/data/'' @ map (\<lambda>c. if c = CHR '' '' then CHR ''/'' else c) label"

text \<open>
  \<open>inputPaths\<close>: \<open>new Array(inputs.length)\<close> is an array of holes (\<open>None\<close>), and the
  loop stores the path of row \<open>i\<close> at index \<open>i\<close>. The argument is the list of the rows'
  \<open>value\<close>s in document order.
\<close>

function inputPaths_loop :: "string list \<Rightarrow> nat \<Rightarrow> string option list \<Rightarrow> string option list" where
  "inputPaths_loop inputs i rtn =
     (if i < length inputs
      then inputPaths_loop inputs (i + 1) (rtn[i := Some (optValueToURL (inputs ! i))])
      else rtn)"
  by pat_completeness auto
termination
  by (relation "measure (\<lambda>(inputs, i, rtn). length inputs - i)") auto

declare inputPaths_loop.simps [simp del]

definition inputPaths :: "string list \<Rightarrow> string option list" where
  "inputPaths inputs = inputPaths_loop inputs 0 (replicate (length inputs) None)"

subsection \<open>The readiness gate of \<open>analyze\<close>\<close>

text \<open>
  The variables of one \<open>analyze\<close> action: \<open>inGraphs\<close> and \<open>exGraphs\<close> (\<open>None\<close> is
  \<open>null\<close>; an array, also the empty one, is truthy), the path lists handed to the two
  \<open>loadData\<close> calls, and \<open>world\<close>, the state that \<open>doAnalyses\<close> acts on.
\<close>

record ('g, 'w) action =
  inGraphs :: "'g list option"
  exGraphs :: "'g list option"
  inLoad :: "string option list"
  exLoad :: "string option list"
  world :: "'w"

definition analyze :: "string list \<Rightarrow> string list \<Rightarrow> 'w \<Rightarrow> ('g, 'w) action" where
  "analyze includeInputs excludeInputs w =
     (let inPaths = inputPaths includeInputs;
          exPaths = inputPaths excludeInputs
      in \<lparr>inGraphs = None,
          exGraphs = (if length exPaths = 0 then Some [] else None),
          inLoad = inPaths,
          exLoad = exPaths,
          world = w\<rparr>)"

text \<open>
  \<open>next\<close>, with the engine it calls as the parameter \<open>run\<close>:
  \<open>if ( inGraphs && exGraphs ) doAnalyses(inGraphs, exGraphs)\<close>.
\<close>

definition next_step :: "('g list \<Rightarrow> 'g list \<Rightarrow> 'w \<Rightarrow> 'w) \<Rightarrow> ('g, 'w) action \<Rightarrow> ('g, 'w) action" where
  "next_step run st =
     (case inGraphs st of
        None \<Rightarrow> st
      | Some ig \<Rightarrow>
          (case exGraphs st of
             None \<Rightarrow> st
           | Some eg \<Rightarrow> st\<lparr>world := run ig eg (world st)\<rparr>))"

definition getObjectGraphs :: "('j \<Rightarrow> 'g) \<Rightarrow> 'j list \<Rightarrow> 'g list" where
  "getObjectGraphs fromJSON jsons = map fromJSON jsons"

text \<open>
  The two \<open>then\<close> callbacks. A completion carries the decoded responses of its batch;
  the order in which completions arrive is not fixed by the script.
\<close>

datatype 'j completion = InLoaded "'j list" | ExLoaded "'j list"

fun completed ::
  "('g list \<Rightarrow> 'g list \<Rightarrow> 'w \<Rightarrow> 'w) \<Rightarrow> ('j \<Rightarrow> 'g) \<Rightarrow> ('g, 'w) action \<Rightarrow> 'j completion \<Rightarrow> ('g, 'w) action" where
  "completed run fromJSON st (InLoaded jsons) =
     next_step run (st\<lparr>inGraphs := Some (getObjectGraphs fromJSON jsons)\<rparr>)"
| "completed run fromJSON st (ExLoaded jsons) =
     next_step run (st\<lparr>exGraphs := Some (getObjectGraphs fromJSON jsons)\<rparr>)"

definition completions ::
  "('g list \<Rightarrow> 'g list \<Rightarrow> 'w \<Rightarrow> 'w) \<Rightarrow> ('j \<Rightarrow> 'g) \<Rightarrow> ('g, 'w) action \<Rightarrow> 'j completion list \<Rightarrow> ('g, 'w) action" where
  "completions run fromJSON st evs = foldl (completed run fromJSON) st evs"

text \<open>
  An engine that only records its invocations, to count them: the world is the list
  of the argument pairs \<open>doAnalyses\<close> was called with, oldest first.
\<close>

definition invoked :: "'g list \<Rightarrow> 'g list \<Rightarrow> ('g list \<times> 'g list) list \<Rightarrow> ('g list \<times> 'g list) list" where
  "invoked ig eg calls = calls @ [(ig, eg)]"

definition invocations :: "('j \<Rightarrow> 'g) \<Rightarrow> string list \<Rightarrow> string list \<Rightarrow> 'j completion list \<Rightarrow> ('g list \<times> 'g list) list" where
  "invocations fromJSON includeInputs excludeInputs evs =
     world (completions invoked fromJSON (analyze includeInputs excludeInputs []) evs)"

subsection \<open>The analysis engine \<open>doAnalyses\<close>\<close>

text \<open>
  What stands where the script expects a node identifier: a JavaScript number or the
  \<open>null\<close> that a lookup of an unknown path gives. The library numbers the nodes of a
  graph with non-negative integers; the numbers of the model are the integers from 0
  below \<open>2\<^sup>5\<^sup>3\<close>, which the language holds exactly and prints in plain decimal, and
  NaN.
\<close>

datatype ident = NaN | Num "53 word" | Null

fun isNaN :: "ident \<Rightarrow> bool" where
  "isNaN NaN = True"
| "isNaN (Num n) = False"
| "isNaN Null = False"

definition digit :: "nat \<Rightarrow> char" where
  "digit n = ''0123456789'' ! (n mod 10)"

fun digits :: "nat \<Rightarrow> string" where
  "digits n = (if n < 10 then [digit n] else digits (n div 10) @ [digit n])"

declare digits.simps [simp del]

text \<open>The string the default comparison of \<open>Array.prototype.sort\<close> compares by.\<close>

fun toString :: "ident \<Rightarrow> string" where
  "toString NaN = ''NaN''"
| "toString Null = ''null''"
| "toString (Num n) = digits (unat n)"

text \<open>
  The part of an \<open>ObjectGraph\<close> of the external library that the script uses.
  \<open>lookup key (Some id)\<close> is \<open>graph.lookup(key, id)\<close> and \<open>lookup key None\<close> is
  \<open>graph.lookup(key)\<close>.
\<close>

record graph =
  root :: ident
  getAllIds :: "ident list"
  isFunction :: "ident \<Rightarrow> bool"
  isType :: "ident \<Rightarrow> bool"
  getShortestKey :: "ident \<Rightarrow> string"
  getObjectKeys :: "ident \<Rightarrow> string list"
  lookup :: "string \<Rightarrow> ident option \<Rightarrow> ident"

text \<open>
  The text content of the regions \<open>#apis\<close>, \<open>#structs\<close> and \<open>#primitives\<close>; the rest
  of the page is the extension of the record.
\<close>

record page =
  apisE :: string
  structsE :: string
  primitivesE :: string

text \<open>A run of the engine ends by returning or by an exception of the library.\<close>

datatype 'p outcome = Returned 'p | Threw 'p

fun page_of :: "'p outcome \<Rightarrow> 'p" where
  "page_of (Returned p) = p"
| "page_of (Threw p) = p"

definition clearRegions :: "'a page_scheme \<Rightarrow> 'a page_scheme" where
  "clearRegions p = p\<lparr>primitivesE := [], structsE := [], apisE := []\<rparr>"

definition ids :: "graph \<Rightarrow> ident list" where
  "ids g = sort_key toString (filter (\<lambda>id. \<not> isNaN id) (getAllIds g))"

definition apis :: "graph \<Rightarrow> string list" where
  "apis g = sort (map (getShortestKey g) (filter (\<lambda>id. isFunction g id) (ids g)))"

definition allStructs :: "graph \<Rightarrow> string list" where
  "allStructs g =
     sort (map (getShortestKey g)
       (filter (\<lambda>id. id \<noteq> root g \<and> \<not> isFunction g id) (ids g)))"

definition leafStructs :: "string list \<Rightarrow> string list" where
  "leafStructs paths =
     filter (\<lambda>struct. \<not> list_ex (\<lambda>otherStruct.
         length otherStruct > length struct \<and> indexOf otherStruct struct = 0) paths)
       paths"

definition structs :: "graph \<Rightarrow> string list" where
  "structs g = leafStructs (allStructs g)"

definition primitivesOf :: "graph \<Rightarrow> ident \<Rightarrow> string list" where
  "primitivesOf g ident =
     (let prefix = getShortestKey g ident;
          keys = getObjectKeys g ident;
          a = filter (\<lambda>key. isType g (lookup g key (Some ident))) keys;
          b = map (\<lambda>key. prefix @ ''.'' @ key) a
      in b)"

definition primitiveEntries :: "graph \<Rightarrow> string list" where
  "primitiveEntries g = foldl (\<lambda>acc arr. acc @ arr) [] (map (primitivesOf g) (ids g))"

definition reserved :: "string list" where
  "reserved = [''arguments'', ''caller'', ''length'', ''name'']"

text \<open>
  The filter on the entries: \<open>split\<close> never returns the empty array, so the
  \<open>postfix\<close> \<open>prefix[prefix.length - 1]\<close> is its last element, and
  \<open>slice(0, prefix.length - 1)\<close> is all but the last.
\<close>

definition keepEntry :: "graph \<Rightarrow> string \<Rightarrow> bool" where
  "keepEntry g key =
     (let parts = split CHR ''.'' key;
          postfix = last parts;
          prefix = join ''.'' (take (length parts - 1) parts)
      in \<not> isFunction g (lookup g prefix None) \<or>
         \<not> list_ex (\<lambda>name. name = postfix) reserved)"

definition primitives :: "graph \<Rightarrow> string list" where
  "primitives g = sort (filter (keepEntry g) (primitiveEntries g))"

definition writeRegions :: "graph \<Rightarrow> 'a page_scheme \<Rightarrow> 'a page_scheme" where
  "writeRegions g p =
     p\<lparr>apisE := join newline (apis g),
       structsE := join newline (structs g),
       primitivesE := join newline (primitives g)\<rparr>"

text \<open>
  \<open>doAnalyses\<close>, with \<open>analysis.intersectDifference\<close> of the external library as the
  parameter \<open>intersectDifference\<close>; it gives \<open>None\<close> where the library throws. The
  \<open>debugger\<close> statements and \<open>console.assert\<close> change nothing the script computes.
\<close>

definition doAnalyses ::
  "(graph list \<Rightarrow> graph list \<Rightarrow> graph option) \<Rightarrow> graph list \<Rightarrow> graph list \<Rightarrow>
     'a page_scheme \<Rightarrow> 'a page_scheme outcome" where
  "doAnalyses intersectDifference ig eg p =
     (let p1 = clearRegions p
      in case intersectDifference ig eg of
           None \<Rightarrow> Threw p1
         | Some g \<Rightarrow> Returned (writeRegions g p1))"

text \<open>
  A small graph to run the engine on: the root \<open>window\<close> (0), a function \<open>f\<close> (1)
  with the keys \<open>length\<close> and \<open>x\<close>, an object \<open>o\<close> (2) with the keys \<open>length\<close> and
  \<open>p\<close>, the object \<open>o.p\<close> (10), and a malformed identifier. Identifier 100 stands for
  a primitive type.
\<close>

definition example_graph :: graph where
  "example_graph =
     \<lparr>root = Num 0,
      getAllIds = [Num 10, NaN, Num 2, Num 0, Num 1],
      isFunction = (\<lambda>i. i = Num 1),
      isType = (\<lambda>i. i = Num 100),
      getShortestKey = (\<lambda>i. if i = Num 0 then ''window'' else if i = Num 1 then ''f''
         else if i = Num 2 then ''o'' else if i = Num 10 then ''o.p'' else ''?''),
      getObjectKeys = (\<lambda>i. if i = Num 1 then [''length'', ''x'']
         else if i = Num 2 then [''length'', ''p''] else []),
      lookup = (\<lambda>key r. case r of
           None \<Rightarrow> (if key = ''f'' then Num 1 else if key = ''o'' then Num 2
             else if key = ''o.p'' then Num 10 else if key = ''window'' then Num 0 else Null)
         | Some i \<Rightarrow> (if key = ''p'' then Num 10 else Num 100))\<rparr>"

section \<open>Properties\<close>

subsection \<open>Language primitives\<close>

lemma join_Cons: "join sep (x # xs) = x @ concat (map ((@) sep) xs)"
  by (induction sep xs arbitrary: x rule: join.induct) simp_all

subsection \<open>Flattening the catalog\<close>

text \<open>
  Below a prefix that is not empty, \<open>getKeys\<close> gives the prefix followed by each leaf
  path, all joined by single spaces. At the root, where the prefix is the empty string,
  a segment that is itself the empty string leaves the prefix empty, so the leading
  empty segments of a path do not show in its option.
\<close>

lemma getKeys_prefixed:
  "s \<noteq> [] \<Longrightarrow> getKeys v s = map (\<lambda>p. join '' '' (s # p)) (spec_leafPaths v)"
  "s \<noteq> [] \<Longrightarrow>
     getKeys_loop ps s rtn = rtn @ map (\<lambda>p. join '' '' (s # p)) (spec_leafPaths_props ps)"
proof (induction v s and ps s rtn rule: getKeys_getKeys_loop.induct)
  case (7 key v rest s rtn)
  then show ?case by (simp add: join_Cons o_def)
qed simp_all

lemma getKeys_root:
  "getKeys v [] = map (\<lambda>p. join '' '' (dropWhile (\<lambda>k. k = []) p)) (spec_leafPaths v)"
  "getKeys_loop ps [] rtn =
     rtn @ map (\<lambda>p. join '' '' (dropWhile (\<lambda>k. k = []) p)) (spec_leafPaths_props ps)"
proof (induction v "[] :: string" and ps "[] :: string" rtn rule: getKeys_getKeys_loop.induct)
  case (7 key v rest rtn)
  then show ?case by (cases "key = []") (simp_all add: getKeys_prefixed o_def)
qed simp_all

lemma join_Cons_nonempty: "q \<noteq> [] \<Longrightarrow> join sep (x # q) = x @ sep @ join sep q"
  by (cases q) simp_all

lemma length_join_dropWhile:
  "length (join sep (dropWhile P q)) \<le> length (join sep q)"
proof (induction q)
  case Nil
  show ?case by simp
next
  case (Cons x q)
  show ?case
  proof (cases "P x")
    case True
    have "length (join sep q) \<le> length (join sep (x # q))"
      by (cases "q = []") (simp_all add: join_Cons_nonempty)
    with Cons True show ?thesis by simp
  next
    case False
    then show ?thesis by simp
  qed
qed

text \<open>
  Dropping the leading empty segments changes the joined path exactly when the path
  has two or more segments and begins with an empty one.
\<close>

lemma join_dropWhile_empty:
  "join '' '' (dropWhile (\<lambda>k. k = []) p) = join '' '' p
     \<longleftrightarrow> \<not> (2 \<le> length p \<and> hd p = [])"
proof (cases p)
  case Nil
  then show ?thesis by simp
next
  case (Cons x q)
  show ?thesis
  proof (cases "x = []")
    case False
    with Cons show ?thesis by simp
  next
    case True
    show ?thesis
    proof (cases "q = []")
      case True
      with Cons \<open>x = []\<close> show ?thesis by simp
    next
      case False
      have "length (join '' '' (dropWhile (\<lambda>k. k = []) q)) \<le> length (join '' '' q)"
        by (rule length_join_dropWhile)
      moreover have "length (join '' '' ([] # q)) = Suc (length (join '' '' q))"
        using False by (simp add: join_Cons_nonempty)
      ultimately have "join '' '' (dropWhile (\<lambda>k. k = []) q) \<noteq> join '' '' ([] # q)"
        by (metis Suc_n_not_le_n)
      with Cons \<open>x = []\<close> False show ?thesis
        by (cases q) simp_all
    qed
  qed
qed

text \<open>
  C4, as amended. The option list has one entry per leaf value of the catalog, in
  depth-first order with the properties in enumeration order, and the entry of a leaf
  is its path with the leading empty segments removed and the remaining segments
  joined by single spaces. So the list is the list of the full paths joined by single
  spaces exactly when no leaf path of two or more segments begins with an empty
  segment.
\<close>

theorem getKeys_flattens:
  "catalogLoaded m
     = map (\<lambda>p. join '' '' (dropWhile (\<lambda>segment. segment = []) p)) (spec_leafPaths m)
   \<and> (catalogLoaded m = spec_options m
        \<longleftrightarrow> (\<forall>p \<in> set (spec_leafPaths m). 2 \<le> length p \<longrightarrow> hd p \<noteq> []))"
proof
  show law: "catalogLoaded m
     = map (\<lambda>p. join '' '' (dropWhile (\<lambda>segment. segment = []) p)) (spec_leafPaths m)"
    by (simp add: catalogLoaded_def getKeys_root)
  show "catalogLoaded m = spec_options m
        \<longleftrightarrow> (\<forall>p \<in> set (spec_leafPaths m). 2 \<le> length p \<longrightarrow> hd p \<noteq> [])"
    unfolding law spec_options_def map_eq_conv join_dropWhile_empty by blast
qed

theorem getKeys_flattens_witness:
  "spec_leafPaths (JObj [('''', JNum 1), (''a'', JObj [(''b'', JNum 2), (''c'', JObj [])])])
     = [[''''], [''a'', ''b'']]
   \<and> catalogLoaded (JObj [('''', JNum 1), (''a'', JObj [(''b'', JNum 2), (''c'', JObj [])])])
     = ['''', ''a b'']
   \<and> spec_options (JObj [('''', JNum 1), (''a'', JObj [(''b'', JNum 2), (''c'', JObj [])])])
     = ['''', ''a b'']"
  using getKeys_flattens
    [of "JObj [('''', JNum 1), (''a'', JObj [(''b'', JNum 2), (''c'', JObj [])])]"]
  by (simp add: spec_options_def)

text \<open>
  C4 as stated fails on the catalog \<open>{"": {"a": 5}}\<close>: the path of its leaf has the
  segments \<open>""\<close> and \<open>"a"\<close>, which joined by a space give \<open>" a"\<close>, and \<open>getKeys\<close> gives
  \<open>"a"\<close>.
\<close>

theorem getKeys_empty_segment_counterexample:
  "catalogLoaded (JObj [('''', JObj [(''a'', JNum 5)])])
     \<noteq> spec_options (JObj [('''', JObj [(''a'', JNum 5)])])"
  by (simp add: catalogLoaded_def spec_options_def)

text \<open>
  C10. A value that is not an object, or is null, gives the one option equal to the
  prefix, so such a catalog root gives the single option \<open>""\<close>; an object without own
  properties gives no option.
\<close>

theorem getKeys_edge_cases:
  "(typeof v \<noteq> ''object'' \<or> v = JNull \<longrightarrow> getKeys v s = [s] \<and> catalogLoaded v = [''''])
   \<and> (typeof v = ''object'' \<and> v \<noteq> JNull \<and> getOwnPropertyNames v = [] \<longrightarrow> getKeys v s = [])"
  by (cases v) (simp_all add: catalogLoaded_def)

theorem getKeys_edge_cases_witness:
  "getKeys (JStr ''x'') ''a b'' = [''a b''] \<and> getKeys JNull ''a'' = [''a'']
   \<and> catalogLoaded (JNum 7) = [''''] \<and> getKeys (JObj []) ''a'' = []"
  using getKeys_edge_cases [of "JStr ''x''" "''a b''"] getKeys_edge_cases [of JNull "''a''"]
    getKeys_edge_cases [of "JNum 7" "''a''"] getKeys_edge_cases [of "JObj []" "''a''"]
  by simp

subsection \<open>Retrieval paths\<close>

text \<open>
  The loop of \<open>inputPaths\<close> has filled the indices below \<open>i\<close> and fills the rest from
  the rows at and after \<open>i\<close>.
\<close>

lemma inputPaths_loop_inv:
  "i \<le> length inputs \<Longrightarrow> length rtn = length inputs \<Longrightarrow>
   inputPaths_loop inputs i rtn = take i rtn @ map (\<lambda>v. Some (optValueToURL v)) (drop i inputs)"
proof (induction inputs i rtn rule: inputPaths_loop.induct)
  case (1 inputs i rtn)
  show ?case
  proof (cases "i < length inputs")
    case True
    then have "inputPaths_loop inputs i rtn =
        inputPaths_loop inputs (i + 1) (rtn[i := Some (optValueToURL (inputs ! i))])"
      by (subst inputPaths_loop.simps) simp
    also have "\<dots> = take (i + 1) (rtn[i := Some (optValueToURL (inputs ! i))])
        @ map (\<lambda>v. Some (optValueToURL v)) (drop (i + 1) inputs)"
      using True "1.prems" by (intro "1.IH") simp_all
    also have "take (i + 1) (rtn[i := Some (optValueToURL (inputs ! i))])
        = take i rtn @ [Some (optValueToURL (inputs ! i))]"
      using True "1.prems" by (simp add: take_Suc_conv_app_nth)
    also have "(take i rtn @ [Some (optValueToURL (inputs ! i))])
          @ map (\<lambda>v. Some (optValueToURL v)) (drop (i + 1) inputs)
        = take i rtn @ map (\<lambda>v. Some (optValueToURL v)) (drop i inputs)"
      using True by (simp add: Cons_nth_drop_Suc [symmetric])
    finally show ?thesis .
  next
    case False
    with "1.prems" show ?thesis by (subst inputPaths_loop.simps) simp
  qed
qed

lemma inputPaths_map: "inputPaths inputs = map (\<lambda>v. Some (optValueToURL v)) inputs"
  by (simp add: inputPaths_def inputPaths_loop_inv)

text \<open>
  C6. The rows give one retrieval path each, in row order: the row's value with every
  space replaced by \<open>/\<close>, after the prefix \<open>/data/\<close>. No row is left out, and a row
  with the empty value gives the prefix itself.
\<close>

theorem inputPaths_rows:
  "inputPaths inputs =
     map (\<lambda>v. Some (''/data/'' @ map (\<lambda>c. if c = CHR '' '' then CHR ''/'' else c) v)) inputs
   \<and> length (inputPaths inputs) = length inputs
   \<and> inputPaths (before @ [[]] @ after) ! length before = Some ''/data/''
   \<and> inputPaths [''chrome 50 linux'', [], ''a  b''] =
       [Some ''/data/chrome/50/linux'', Some ''/data/'', Some ''/data/a//b'']"
  by (simp add: inputPaths_map optValueToURL_def nth_append)

subsection \<open>The readiness gate\<close>

lemma analyze_fields:
  "inGraphs (analyze ins exs w) = None"
  "exGraphs (analyze ins exs w) = (if exs = [] then Some [] else None)"
  "inLoad (analyze ins exs w) = map (\<lambda>v. Some (optValueToURL v)) ins"
  "exLoad (analyze ins exs w) = map (\<lambda>v. Some (optValueToURL v)) exs"
  "world (analyze ins exs w) = w"
  by (simp_all add: analyze_def Let_def inputPaths_map)

lemma invocations_nonempty_exclude:
  assumes "exs \<noteq> []"
  shows "invocations f ins exs [InLoaded i, ExLoaded e] = [(map f i, map f e)]"
    and "invocations f ins exs [ExLoaded e, InLoaded i] = [(map f i, map f e)]"
    and "invocations f ins exs [InLoaded i] = []"
    and "invocations f ins exs [ExLoaded e] = []"
    and "invocations f ins exs [] = []"
  using assms
  by (simp_all add: invocations_def completions_def next_step_def analyze_fields
      getObjectGraphs_def invoked_def)

lemma invocations_empty_exclude:
  shows "invocations f ins [] [InLoaded i] = [(map f i, [])]"
    and "invocations f ins [] [ExLoaded e, InLoaded i] = [(map f i, map f e)]"
    and "invocations f ins [] [ExLoaded e] = []"
    and "invocations f ins [] [] = []"
    and "invocations f ins [] [InLoaded i, ExLoaded e] = [(map f i, []), (map f i, map f e)]"
  by (simp_all add: invocations_def completions_def next_step_def analyze_fields
      getObjectGraphs_def invoked_def)

text \<open>
  Each batch completes at most once, so the completions of one action are one of five
  sequences. With at least one exclude row, \<open>doAnalyses\<close> is invoked exactly once when
  both batches have completed, in either order, with the graphs of the two batches,
  and is not invoked when a batch is missing. With no exclude row the exclude side is
  complete from the start: \<open>doAnalyses\<close> is invoked exactly once when the include batch
  completes, provided the exclude callback has run before or does not run, and is not
  invoked without the include batch.
\<close>

lemma gate_fires_once:
  "(excludeInputs \<noteq> [] \<longrightarrow>
      invocations fromJSON includeInputs excludeInputs [InLoaded i, ExLoaded e]
        = [(map fromJSON i, map fromJSON e)]
    \<and> invocations fromJSON includeInputs excludeInputs [ExLoaded e, InLoaded i]
        = [(map fromJSON i, map fromJSON e)]
    \<and> invocations fromJSON includeInputs excludeInputs [InLoaded i] = []
    \<and> invocations fromJSON includeInputs excludeInputs [ExLoaded e] = []
    \<and> invocations fromJSON includeInputs excludeInputs [] = [])
   \<and> (excludeInputs = [] \<longrightarrow>
      invocations fromJSON includeInputs excludeInputs [InLoaded i] = [(map fromJSON i, [])]
    \<and> invocations fromJSON includeInputs excludeInputs [ExLoaded e, InLoaded i]
        = [(map fromJSON i, map fromJSON e)]
    \<and> invocations fromJSON includeInputs excludeInputs [ExLoaded e] = []
    \<and> invocations fromJSON includeInputs excludeInputs [] = [])"
  by (simp add: invocations_nonempty_exclude invocations_empty_exclude)

text \<open>
  C1. The engine is to run exactly once per action. On an action with no exclude row
  whose exclude callback runs after the include callback, as on the action with no
  row at all, whose callbacks run in the order they were registered, it runs twice:
  \<open>exGraphs\<close> starts as the empty array, so the include callback finds both variables
  set and invokes \<open>doAnalyses\<close>, and the exclude callback, which nothing tells that
  the engine has run, invokes it again.
\<close>

theorem gate_fires_twice:
  "invocations fromJSON includeInputs [] [InLoaded i, ExLoaded e]
     = [(map fromJSON i, []), (map fromJSON i, map fromJSON e)]
   \<and> invocations (\<lambda>j::nat. j) [] [] [InLoaded [], ExLoaded []] = [([], []), ([], [])]
   \<and> length (invocations (\<lambda>j::nat. j) [] [] [InLoaded [], ExLoaded []]) = 2"
  by (simp add: invocations_empty_exclude)

text \<open>
  C5. With no exclude row, \<open>exGraphs\<close> is the empty array from the start and the
  exclude-side \<open>loadData\<close> is handed no path to fetch; \<open>doAnalyses\<close> is invoked when the
  include batch completes, and every invocation receives the empty exclude sequence.
\<close>

theorem empty_exclude_precompleted:
  "exGraphs (analyze includeInputs [] w :: ('g, 'w) action) = Some []
   \<and> exLoad (analyze includeInputs [] w :: ('g, 'w) action) = []
   \<and> invocations fromJSON includeInputs [] [InLoaded i] = [(map fromJSON i, [])]
   \<and> invocations fromJSON includeInputs [] [ExLoaded [], InLoaded i] = [(map fromJSON i, [])]
   \<and> list_all (\<lambda>call. snd call = [])
        (invocations fromJSON includeInputs [] [InLoaded i, ExLoaded []])"
  by (simp add: analyze_fields invocations_empty_exclude)

subsection \<open>Searching and splitting strings\<close>

lemma indexOf_from_range: "indexOf_from s t i = - 1 \<or> i \<le> indexOf_from s t i"
proof (induction s arbitrary: i)
  case Nil
  show ?case by simp
next
  case (Cons x xs)
  from Cons.IH [of "i + 1"] show ?case by auto
qed

lemma indexOf_from_start: "0 \<le> i \<Longrightarrow> indexOf_from s t i = i \<longleftrightarrow> prefix t s"
proof (cases s)
  case Nil
  assume "0 \<le> i"
  then show ?thesis by (auto simp: Nil)
next
  case (Cons x xs)
  assume i: "0 \<le> i"
  from indexOf_from_range [of xs t "i + 1"] i
  have "indexOf_from xs t (i + 1) \<noteq> i" by auto
  then show ?thesis by (simp add: Cons)
qed

text \<open>\<open>s.indexOf(t) === 0\<close> says that \<open>t\<close> is a prefix of \<open>s\<close>.\<close>

lemma indexOf_zero: "indexOf s t = 0 \<longleftrightarrow> prefix t s"
  by (simp add: indexOf_def indexOf_from_start)

lemma split_nonempty: "split c s \<noteq> []"
  by (induction s) (auto split: list.splits)

lemma split_append_sep:
  "c \<notin> set k \<Longrightarrow> split c (p @ c # k) = split c p @ [k]"
proof (induction p)
  case Nil
  have "c \<notin> set k \<Longrightarrow> split c k = [k]" for k
    by (induction k) auto
  with Nil show ?case by simp
next
  case (Cons x p)
  then show ?case
    using split_nonempty [of c p] by (auto split: list.splits)
qed

lemma join_split: "join [c] (split c s) = s"
proof (induction s)
  case Nil
  show ?case by simp
next
  case (Cons x s)
  show ?case
  proof (cases "x = c")
    case True
    with Cons show ?thesis
      using split_nonempty [of c s] by (cases "split c s") simp_all
  next
    case False
    obtain w ws where ws: "split c s = w # ws"
      using split_nonempty [of c s] by (cases "split c s") auto
    with Cons False show ?thesis by (simp add: join_Cons)
  qed
qed

subsection \<open>The identifiers\<close>

lemma ids_set: "set (ids g) = {i \<in> set (getAllIds g). \<not> isNaN i}"
  by (auto simp: ids_def)

lemma ids_mset: "mset (ids g) = filter_mset (\<lambda>i. \<not> isNaN i) (mset (getAllIds g))"
  by (simp add: ids_def)

lemma ids_sorted: "sorted (map toString (ids g))"
  by (simp add: ids_def)

lemma ids_drop_NaN: "ids (g\<lparr>getAllIds := filter (\<lambda>i. \<not> isNaN i) (getAllIds g)\<rparr>) = ids g"
  by (simp add: ids_def)

subsection \<open>The three lists\<close>

lemma leafStructs_mem:
  "s \<in> set (leafStructs paths) \<longleftrightarrow>
     s \<in> set paths \<and> \<not> (\<exists>other \<in> set paths. length s < length other \<and> prefix s other)"
  by (auto simp: leafStructs_def list_ex_iff indexOf_zero)

lemma sorted_leafStructs: "sorted paths \<Longrightarrow> sorted (leafStructs paths)"
  unfolding leafStructs_def by (rule sorted_wrt_filter)

lemma sorted_apis: "sorted (apis g)"
  by (simp add: apis_def)

lemma sorted_structs: "sorted (structs g)"
  by (simp add: structs_def allStructs_def sorted_leafStructs)

lemma sorted_primitives: "sorted (primitives g)"
  by (simp add: primitives_def)

text \<open>
  An entry whose last segment is \<open>key\<close> is split there: the filter looks up what is
  before the last dot and compares what is after it with the reserved names.
\<close>

lemma keepEntry_dotted:
  assumes "CHR ''.'' \<notin> set key"
  shows "keepEntry g (owner @ ''.'' @ key) \<longleftrightarrow>
     \<not> (isFunction g (lookup g owner None)
        \<and> key \<in> {''arguments'', ''caller'', ''length'', ''name''})"
proof -
  have parts: "split CHR ''.'' (owner @ CHR ''.'' # key) = split CHR ''.'' owner @ [key]"
    using assms by (rule split_append_sep)
  have whole: "join ''.'' (split CHR ''.'' owner) = owner"
    by (rule join_split)
  show ?thesis
    by (auto simp: keepEntry_def Let_def parts whole reserved_def)
qed

lemma foldl_append_concat: "foldl (\<lambda>acc arr. acc @ arr) a xss = a @ concat xss"
  by (induction xss arbitrary: a) simp_all

lemma primitiveEntries_concat: "primitiveEntries g = concat (map (primitivesOf g) (ids g))"
  by (simp add: primitiveEntries_def foldl_append_concat)

lemma primitives_mem:
  "e \<in> set (primitives g) \<longleftrightarrow> e \<in> set (primitiveEntries g) \<and> keepEntry g e"
  by (auto simp: primitives_def)

subsection \<open>The engine on the example graph\<close>

lemma example_ids: "ids example_graph = [Num 0, Num 1, Num 10, Num 2]"
  by (simp add: ids_def example_graph_def digits.simps digit_def)

lemma example_apis: "apis example_graph = [''f'']"
  by (simp add: apis_def example_ids) (simp add: example_graph_def)

lemma example_allStructs: "allStructs example_graph = [''o'', ''o.p'']"
  by (simp add: allStructs_def example_ids) (simp add: example_graph_def)

lemma example_structs: "structs example_graph = [''o.p'']"
  by (simp add: structs_def example_allStructs leafStructs_def indexOf_zero)

lemma example_entries:
  "primitiveEntries example_graph = [''f.length'', ''f.x'', ''o.length'']"
  by (simp add: primitiveEntries_def example_ids primitivesOf_def Let_def)
     (simp add: example_graph_def)

lemma example_primitives: "primitives example_graph = [''f.x'', ''o.length'']"
  by (simp add: primitives_def example_entries keepEntry_def Let_def reserved_def)
     (simp add: example_graph_def)

subsection \<open>The engine as a page transformer\<close>

lemma doAnalyses_more: "page.more (page_of (doAnalyses L ig eg p)) = page.more p"
  by (simp add: doAnalyses_def Let_def clearRegions_def writeRegions_def split: option.splits)

lemma doAnalyses_idem:
  "doAnalyses L ig eg (page_of (doAnalyses L ig eg p)) = doAnalyses L ig eg p"
  by (simp add: doAnalyses_def Let_def clearRegions_def writeRegions_def split: option.splits)

subsection \<open>Leaf structs, reserved keys and identifiers\<close>

text \<open>
  C2. A struct path stays in the list exactly when no path of the list is strictly
  longer and has it as a literal prefix, whatever follows the prefix: of \<open>a\<close>, \<open>a.b\<close>,
  \<open>a.b.c\<close> and \<open>x\<close> the paths \<open>a.b.c\<close> and \<open>x\<close> stay, and \<open>ab\<close> is dropped next to
  \<open>abc\<close>.
\<close>

theorem leaf_struct_filter:
  "(s \<in> set (leafStructs paths) \<longleftrightarrow>
      s \<in> set paths \<and> \<not> (\<exists>other \<in> set paths. length s < length other \<and> prefix s other))
   \<and> leafStructs [''a'', ''a.b'', ''a.b.c'', ''x''] = [''a.b.c'', ''x'']
   \<and> leafStructs [''ab'', ''abc''] = [''abc'']
   \<and> structs g = leafStructs (allStructs g)"
  by (simp add: leafStructs_mem structs_def) (simp add: leafStructs_def indexOf_zero)

text \<open>
  C3. An entry \<open>owner.key\<close>, with \<open>key\<close> its last segment, is in the Primitives list
  exactly when it is among the entries collected from the identifiers and it is not
  the case that the object looked up at \<open>owner\<close> is a function and \<open>key\<close> is one of
  \<open>arguments\<close>, \<open>caller\<close>, \<open>length\<close> and \<open>name\<close>; so a reserved key is kept when the
  owner is not a function.
\<close>

theorem reserved_key_filter:
  assumes "CHR ''.'' \<notin> set key"
  shows "owner @ ''.'' @ key \<in> set (primitives g) \<longleftrightarrow>
     owner @ ''.'' @ key \<in> set (primitiveEntries g)
     \<and> \<not> (isFunction g (lookup g owner None)
           \<and> key \<in> {''arguments'', ''caller'', ''length'', ''name''})"
  using keepEntry_dotted [OF assms, of g owner] by (simp add: primitives_mem)

theorem reserved_key_filter_witness:
  "CHR ''.'' \<notin> set ''length''
   \<and> ''f.length'' \<in> set (primitiveEntries example_graph)
   \<and> isFunction example_graph (lookup example_graph ''f'' None)
   \<and> ''f.length'' \<notin> set (primitives example_graph)
   \<and> ''o.length'' \<in> set (primitiveEntries example_graph)
   \<and> \<not> isFunction example_graph (lookup example_graph ''o'' None)
   \<and> ''o.length'' \<in> set (primitives example_graph)"
proof -
  have f: "isFunction example_graph (lookup example_graph ''f'' None)"
    and o: "\<not> isFunction example_graph (lookup example_graph ''o'' None)"
    by (simp_all add: example_graph_def)
  show ?thesis
    using reserved_key_filter [of "''length''" "''f''" example_graph]
      reserved_key_filter [of "''length''" "''o''" example_graph] f o
    by (simp add: example_entries)
qed

text \<open>
  C7, as amended. The identifiers the three lists are computed from are those of the
  result graph that are not NaN, each as often as the graph lists it, in ascending
  order of their string forms, the default order of \<open>sort\<close>. The malformed identifiers
  have no part in the lists, and a run on a graph that has them ends as the run on
  the graph without them does.
\<close>

theorem ids_wellformed_sorted:
  "set (ids g) = {i \<in> set (getAllIds g). \<not> isNaN i}
   \<and> mset (ids g) = filter_mset (\<lambda>i. \<not> isNaN i) (mset (getAllIds g))
   \<and> sorted (map toString (ids g))
   \<and> apis (g\<lparr>getAllIds := filter (\<lambda>i. \<not> isNaN i) (getAllIds g)\<rparr>) = apis g
   \<and> structs (g\<lparr>getAllIds := filter (\<lambda>i. \<not> isNaN i) (getAllIds g)\<rparr>) = structs g
   \<and> primitives (g\<lparr>getAllIds := filter (\<lambda>i. \<not> isNaN i) (getAllIds g)\<rparr>) = primitives g
   \<and> doAnalyses intersectDifference ig eg p
       = doAnalyses
           (\<lambda>a b. map_option
              (\<lambda>r. r\<lparr>getAllIds := filter (\<lambda>i. \<not> isNaN i) (getAllIds r)\<rparr>)
              (intersectDifference a b))
           ig eg p"
proof -
  have lists: "apis (r\<lparr>getAllIds := filter (\<lambda>i. \<not> isNaN i) (getAllIds r)\<rparr>) = apis r"
    "structs (r\<lparr>getAllIds := filter (\<lambda>i. \<not> isNaN i) (getAllIds r)\<rparr>) = structs r"
    "primitives (r\<lparr>getAllIds := filter (\<lambda>i. \<not> isNaN i) (getAllIds r)\<rparr>) = primitives r"
    for r
  proof -
    let ?r = "r\<lparr>getAllIds := filter (\<lambda>i. \<not> isNaN i) (getAllIds r)\<rparr>"
    show "apis ?r = apis r"
      by (simp add: apis_def ids_drop_NaN)
    show "structs ?r = structs r"
      by (simp add: structs_def allStructs_def ids_drop_NaN)
    have "primitivesOf ?r = primitivesOf r"
      by (rule ext) (simp add: primitivesOf_def)
    moreover have "keepEntry ?r = keepEntry r"
      by (rule ext) (simp add: keepEntry_def)
    ultimately show "primitives ?r = primitives r"
      by (simp add: primitives_def primitiveEntries_def ids_drop_NaN)
  qed
  have run: "doAnalyses intersectDifference ig eg p
       = doAnalyses
           (\<lambda>a b. map_option
              (\<lambda>r. r\<lparr>getAllIds := filter (\<lambda>i. \<not> isNaN i) (getAllIds r)\<rparr>)
              (intersectDifference a b))
           ig eg p"
    by (cases "intersectDifference ig eg")
       (simp_all add: doAnalyses_def Let_def writeRegions_def lists)
  show ?thesis
    using lists [of g] run by (simp add: ids_set ids_mset ids_sorted)
qed

theorem ids_wellformed_sorted_witness:
  "NaN \<in> set (getAllIds example_graph)
   \<and> ids example_graph = [Num 0, Num 1, Num 10, Num 2]
   \<and> doAnalyses (\<lambda>ig eg. Some example_graph) [] []
        \<lparr>apisE = ''old'', structsE = ''old'', primitivesE = ''old''\<rparr>
      = Returned \<lparr>apisE = ''f'', structsE = ''o.p'',
          primitivesE = ''f.x'' @ newline @ ''o.length''\<rparr>"
proof -
  have "doAnalyses (\<lambda>ig eg. Some example_graph) [] []
        \<lparr>apisE = ''old'', structsE = ''old'', primitivesE = ''old''\<rparr>
      = Returned \<lparr>apisE = ''f'', structsE = ''o.p'',
          primitivesE = ''f.x'' @ newline @ ''o.length''\<rparr>"
    by (simp add: doAnalyses_def writeRegions_def clearRegions_def example_apis
        example_structs example_primitives)
  moreover have "NaN \<in> set (getAllIds example_graph)"
    by (simp add: example_graph_def)
  ultimately show ?thesis
    using ids_wellformed_sorted [of example_graph "\<lambda>ig eg. Some example_graph" "[]" "[]"
      "\<lparr>apisE = ''old'', structsE = ''old'', primitivesE = ''old''\<rparr>"]
    by (simp add: example_ids)
qed

text \<open>
  C7 as stated fails where it says numeric order: the identifiers 10, 2, 0 and 1 of
  the example graph come out as 0, 1, 10, 2, since \<open>"10"\<close> is before \<open>"2"\<close>, and that
  is not ascending by value.
\<close>

theorem ids_not_numeric_counterexample:
  "\<not> sorted (map (\<lambda>i. case i of Num n \<Rightarrow> unat n | _ \<Rightarrow> 0) (ids example_graph))"
  by (simp add: example_ids)

subsection \<open>The regions of the page\<close>

text \<open>
  C8. Whatever the library does, the engine leaves the rest of the page as it was. If
  the library throws, the three regions are left empty: they were cleared before the
  analysis. If it returns the graph, the regions hold the three lists, each sorted and
  joined by newlines.
\<close>

theorem doAnalyses_regions:
  "page.more (page_of (doAnalyses intersectDifference ig eg p)) = page.more p
   \<and> (intersectDifference ig eg = None \<longrightarrow>
        doAnalyses intersectDifference ig eg p
          = Threw (p\<lparr>apisE := [], structsE := [], primitivesE := []\<rparr>))
   \<and> (intersectDifference ig eg = Some g \<longrightarrow>
        doAnalyses intersectDifference ig eg p
          = Returned (p\<lparr>apisE := join newline (apis g),
                         structsE := join newline (structs g),
                         primitivesE := join newline (primitives g)\<rparr>)
        \<and> sorted (apis g) \<and> sorted (structs g) \<and> sorted (primitives g))"
  by (simp add: doAnalyses_more sorted_apis sorted_structs sorted_primitives)
     (simp add: doAnalyses_def clearRegions_def writeRegions_def)

theorem doAnalyses_regions_witness:
  "doAnalyses (\<lambda>ig eg. case ig of [] \<Rightarrow> None | g # gs \<Rightarrow> Some g) [] []
        \<lparr>apisE = ''old'', structsE = ''old'', primitivesE = ''old''\<rparr>
      = Threw \<lparr>apisE = [], structsE = [], primitivesE = []\<rparr>
   \<and> doAnalyses (\<lambda>ig eg. case ig of [] \<Rightarrow> None | g # gs \<Rightarrow> Some g) [example_graph] []
        \<lparr>apisE = ''old'', structsE = ''old'', primitivesE = ''old''\<rparr>
      = Returned \<lparr>apisE = ''f'', structsE = ''o.p'',
          primitivesE = ''f.x'' @ newline @ ''o.length''\<rparr>"
  using doAnalyses_regions [of "\<lambda>ig eg. case ig of [] \<Rightarrow> None | g # gs \<Rightarrow> Some g" "[]" "[]"
      "\<lparr>apisE = ''old'', structsE = ''old'', primitivesE = ''old''\<rparr>" example_graph]
    doAnalyses_regions [of "\<lambda>ig eg. case ig of [] \<Rightarrow> None | g # gs \<Rightarrow> Some g"
      "[example_graph]" "[]"
      "\<lparr>apisE = ''old'', structsE = ''old'', primitivesE = ''old''\<rparr>" example_graph]
  by (simp add: example_apis example_structs example_primitives)

text \<open>
  C9. With the same two sequences of snapshots and the same library, a second run on
  the page the first run left ends as the first did, and the three texts do not depend
  on the page the run starts from.
\<close>

theorem doAnalyses_idempotent:
  "doAnalyses intersectDifference ig eg (page_of (doAnalyses intersectDifference ig eg p))
     = doAnalyses intersectDifference ig eg p
   \<and> apisE (page_of (doAnalyses intersectDifference ig eg p))
       = apisE (page_of (doAnalyses intersectDifference ig eg q))
   \<and> structsE (page_of (doAnalyses intersectDifference ig eg p))
       = structsE (page_of (doAnalyses intersectDifference ig eg q))
   \<and> primitivesE (page_of (doAnalyses intersectDifference ig eg p))
       = primitivesE (page_of (doAnalyses intersectDifference ig eg q))"
  by (simp add: doAnalyses_idem)
     (simp add: doAnalyses_def Let_def clearRegions_def writeRegions_def split: option.splits)

end
